theory Spec2Isabelle
  imports Complex_Main "HOL-Library.AList"
begin

section \<open>Student records in a CSV file: the data model\<close>

text \<open>
  The application keeps student records in one CSV file whose header is
  \<^verbatim>\<open>csv_header\<close>. In memory a row is a Python dict from field names to text, as
  \<^verbatim>\<open>csv.DictReader\<close> and \<^verbatim>\<open>request.form.to_dict()\<close> produce it: an association
  list that is read through \<open>map_of\<close>. A line of the file under the header is a
  \<open>student\<close>: one text per column.

  Values are text throughout: the form handlers send text, and the JSON body of an
  update is taken to be an object of strings, which is what the update form forwards.
  Logging has no effect on responses or on the file and is left out.
\<close>

type_synonym pydict = "(string \<times> string) list"

definition csv_header :: "string list" where
  "csv_header = [''RollNo'', ''Name'', ''English'', ''Maths'', ''Science'']"

record student =
  RollNo :: string
  Name :: string
  English :: string
  Maths :: string
  Science :: string

datatype exn = KeyError string | ZeroDivisionError | TypeError

text \<open>\<^verbatim>\<open>d[k]\<close> raises KeyError on a missing key; \<^verbatim>\<open>d.get(k, default)\<close> does not.\<close>

definition getitem :: "pydict \<Rightarrow> string \<Rightarrow> exn + string" where
  "getitem d k = (case map_of d k of None \<Rightarrow> Inl (KeyError k) | Some v \<Rightarrow> Inr v)"

definition get_default :: "pydict \<Rightarrow> string \<Rightarrow> string \<Rightarrow> string" where
  "get_default d k dflt = (case map_of d k of None \<Rightarrow> dflt | Some v \<Rightarrow> v)"

text \<open>
  \<^verbatim>\<open>row.update(data)\<close>: every key of \<open>data\<close> is stored into \<open>row\<close> with its
  value in \<open>data\<close> (under \<open>map_of\<close>, the first binding of a key).
\<close>

definition dict_update :: "pydict \<Rightarrow> pydict \<Rightarrow> pydict" where
  "dict_update row data = AList.merge row data"

text \<open>The dict that \<^verbatim>\<open>csv.DictReader\<close> builds from one line under the header.\<close>

definition dict_of_student :: "student \<Rightarrow> pydict" where
  "dict_of_student s =
     [(''RollNo'', RollNo s), (''Name'', Name s), (''English'', English s),
      (''Maths'', Maths s), (''Science'', Science s)]"

text \<open>
  \<^verbatim>\<open>DictWriter._dict_to_list\<close> with the default \<^verbatim>\<open>extrasaction='raise'\<close> and
  \<^verbatim>\<open>restval=''\<close>: a key outside the header raises ValueError (here \<open>None\<close>);
  otherwise the line is \<^verbatim>\<open>rowdict.get(key, '')\<close> for each column.
\<close>

definition columns :: "pydict \<Rightarrow> student" where
  "columns d =
     \<lparr>RollNo = get_default d ''RollNo'' [],
      Name = get_default d ''Name'' [],
      English = get_default d ''English'' [],
      Maths = get_default d ''Maths'' [],
      Science = get_default d ''Science'' []\<rparr>"

definition dict_to_list :: "pydict \<Rightarrow> student option" where
  "dict_to_list d =
     (if list_all (\<lambda>(k, v). k \<in> set csv_header) d then Some (columns d) else None)"

section \<open>The file and its faults\<close>

text \<open>
  The world of a request is the CSV file and what the operating system does to a
  read or a write of it. \<open>csv w = None\<close> is a file that does not exist, \<open>Some rows\<close>
  a file holding the header and these lines. \<open>read_raises\<close> says that opening or
  reading the file raises. A write can be refused when the file is opened
  (\<open>OpenFails\<close>: the file is untouched) or break off after the file was truncated
  by \<^verbatim>\<open>open(..., "w")\<close>, for instance on a full disk. \<open>FailsAfter k None\<close> breaks
  off once \<open>k\<close> lines are stored; \<open>FailsAfter k (Some (j, c))\<close> breaks off inside
  the line after them, once \<open>j\<close> of its fields and \<open>c\<close> characters of the next
  field are stored. The CSV text itself is not modelled: the five texts that
  \<^verbatim>\<open>DictWriter\<close> writes for a whole line are the five that \<^verbatim>\<open>DictReader\<close> reads
  back.
\<close>

datatype io_fault = NoFault | OpenFails | FailsAfter nat "(nat \<times> nat) option"

record world =
  csv :: "student list option"
  read_raises :: bool
  write_fault :: io_fault

definition stored :: "world \<Rightarrow> student list" where
  "stored w = (case csv w of None \<Rightarrow> [] | Some rows \<Rightarrow> rows)"

text \<open>
  \<^verbatim>\<open>read_csv\<close>: \<open>data\<close> starts empty and is assigned only when the file exists and
  was read; the exception is caught.
\<close>

definition read_csv :: "world \<Rightarrow> pydict list" where
  "read_csv w =
     (case csv w of
        None \<Rightarrow> []
      | Some rows \<Rightarrow> if read_raises w then [] else map dict_of_student rows)"

text \<open>
  The records a handler gets to see: those of the file when it exists and can be
  read, none otherwise.
\<close>

definition readable :: "world \<Rightarrow> student list" where
  "readable w = (if read_raises w then [] else stored w)"

text \<open>
  \<^verbatim>\<open>writer.writerows\<close> converts and writes the rows one after the other; the first
  row with a foreign key raises after the rows before it were written.
\<close>

fun writerows :: "pydict list \<Rightarrow> student list \<times> bool" where
  "writerows [] = ([], True)"
| "writerows (d # ds) =
     (case dict_to_list d of
        None \<Rightarrow> ([], False)
      | Some s \<Rightarrow> (case writerows ds of (out, ok) \<Rightarrow> (s # out, ok)))"

text \<open>
  A line that was cut, as \<^verbatim>\<open>DictReader\<close> reads it back: the fields before the cut
  are whole, the field that was being written is cut short, and the fields after
  it are missing. \<^verbatim>\<open>DictReader\<close> gives None for a missing field. Wherever this
  program uses a field, None acts as the empty text does: \<^verbatim>\<open>DictWriter\<close> writes
  it back as the empty text and \<^verbatim>\<open>float\<close> raises on both; the model keeps the
  empty text for it. A line of which no character was written is no line.
\<close>

definition cut_line :: "nat \<Rightarrow> nat \<Rightarrow> student \<Rightarrow> student option" where
  "cut_line j c s =
     (if j = 0 then
        (if take c (RollNo s) = [] then None
         else Some \<lparr>RollNo = take c (RollNo s), Name = [], English = [], Maths = [],
                      Science = []\<rparr>)
      else if j = 1 then
        Some \<lparr>RollNo = RollNo s, Name = take c (Name s), English = [], Maths = [],
                Science = []\<rparr>
      else if j = 2 then
        Some \<lparr>RollNo = RollNo s, Name = Name s, English = take c (English s), Maths = [],
                Science = []\<rparr>
      else if j = 3 then
        Some \<lparr>RollNo = RollNo s, Name = Name s, English = English s,
                Maths = take c (Maths s), Science = []\<rparr>
      else if j = 4 then
        Some \<lparr>RollNo = RollNo s, Name = Name s, English = English s, Maths = Maths s,
                Science = take c (Science s)\<rparr>
      else Some s)"

text \<open>
  What a write that broke off leaves of the lines \<open>out\<close> it was writing: the first
  \<open>k\<close> of them and, when it broke off inside the next one, what was written of
  that line.
\<close>

definition broken_off :: "nat \<Rightarrow> (nat \<times> nat) option \<Rightarrow> student list \<Rightarrow> student list" where
  "broken_off k part out =
     take k out @
     (case part of
        None \<Rightarrow> []
      | Some (j, c) \<Rightarrow>
          (case drop k out of
             [] \<Rightarrow> []
           | s # rest \<Rightarrow> (case cut_line j c s of None \<Rightarrow> [] | Some r \<Rightarrow> [r])))"

text \<open>\<^verbatim>\<open>write_csv\<close>: True when the file was rewritten, False when anything raised.\<close>

definition write_csv :: "pydict list \<Rightarrow> world \<Rightarrow> bool \<times> world" where
  "write_csv row w =
     (case write_fault w of
        OpenFails \<Rightarrow> (False, w)
      | FailsAfter k part \<Rightarrow>
          (False, w\<lparr>csv := Some (broken_off k part (fst (writerows row)))\<rparr>)
      | NoFault \<Rightarrow> (case writerows row of (out, ok) \<Rightarrow> (ok, w\<lparr>csv := Some out\<rparr>)))"


section \<open>The request handlers\<close>

datatype payload = Error string | Message string | Record pydict | Page string

type_synonym response = "payload \<times> nat"

text \<open>
  A handler returns a response, or an exception escapes it (\<open>Inl\<close>), and leaves a
  world behind.
\<close>

definition status :: "(exn + response) \<times> world \<Rightarrow> nat option" where
  "status out = (case fst out of Inl e \<Rightarrow> None | Inr (body, code) \<Rightarrow> Some code)"

text \<open>\<^verbatim>\<open>any(item['RollNo'] == rollno for item in row)\<close>, stopping at the first hit.\<close>

fun any_rollno :: "string \<Rightarrow> pydict list \<Rightarrow> exn + bool" where
  "any_rollno rollno [] = Inr False"
| "any_rollno rollno (item # items) =
     (case getitem item ''RollNo'' of
        Inl e \<Rightarrow> Inl e
      | Inr r \<Rightarrow> if r = rollno then Inr True else any_rollno rollno items)"

definition insert_data :: "pydict \<Rightarrow> world \<Rightarrow> (exn + response) \<times> world" where
  "insert_data data w =
     (if \<not> list_all (\<lambda>field. map_of data field \<noteq> None) csv_header
      then (Inr (Error ''Missing required fields'', 400), w)
      else
        let row = read_csv w in
        case getitem data ''RollNo'' of
          Inl e \<Rightarrow> (Inl e, w)
        | Inr rollno \<Rightarrow>
            (case any_rollno rollno row of
               Inl e \<Rightarrow> (Inl e, w)
             | Inr True \<Rightarrow>
                 (Inr (Error (''Record with the RollNo '' @ rollno @ '' already exists''), 400), w)
             | Inr False \<Rightarrow>
                 (case write_csv (row @ [data]) w of
                    (True, w') \<Rightarrow> (Inr (Message ''Record inserted successfully'', 201), w')
                  | (False, w') \<Rightarrow> (Inr (Error ''Failed to write record'', 500), w'))))"

text \<open>\<^verbatim>\<open>[row for row in records if row["RollNo"] != rollno]\<close>\<close>

fun filter_rollno :: "string \<Rightarrow> pydict list \<Rightarrow> exn + pydict list" where
  "filter_rollno rollno [] = Inr []"
| "filter_rollno rollno (row # rows) =
     (case getitem row ''RollNo'' of
        Inl e \<Rightarrow> Inl e
      | Inr r \<Rightarrow>
          (case filter_rollno rollno rows of
             Inl e \<Rightarrow> Inl e
           | Inr rest \<Rightarrow> Inr (if r \<noteq> rollno then row # rest else rest)))"

definition remove_data :: "string \<Rightarrow> world \<Rightarrow> (exn + response) \<times> world" where
  "remove_data rollno w =
     (let records = read_csv w in
      case filter_rollno rollno records of
        Inl e \<Rightarrow> (Inl e, w)
      | Inr filtered_records \<Rightarrow>
          if length records = length filtered_records
          then (Inr (Error ''Record not found'', 404), w)
          else
            (case write_csv filtered_records w of
               (True, w') \<Rightarrow> (Inr (Message ''Record deleted successfully'', 200), w')
             | (False, w') \<Rightarrow> (Inr (Error ''Failed to delete record'', 500), w')))"

text \<open>
  The loop of \<^verbatim>\<open>update_data\<close>: each row compares its RollNo with the one of the
  body and, on a match, takes over every item of the body.
\<close>

fun update_rows :: "pydict \<Rightarrow> pydict list \<Rightarrow> exn + pydict list \<times> bool" where
  "update_rows data [] = Inr ([], False)"
| "update_rows data (row # rows) =
     (case getitem row ''RollNo'' of
        Inl e \<Rightarrow> Inl e
      | Inr r \<Rightarrow>
          (case getitem data ''RollNo'' of
             Inl e \<Rightarrow> Inl e
           | Inr k \<Rightarrow>
               (case update_rows data rows of
                  Inl e \<Rightarrow> Inl e
                | Inr (rest, updated) \<Rightarrow>
                    if r = k then Inr (dict_update row data # rest, True)
                    else Inr (row # rest, updated))))"

definition update_data :: "pydict \<Rightarrow> world \<Rightarrow> (exn + response) \<times> world" where
  "update_data data w =
     (let records = read_csv w in
      case update_rows data records of
        Inl e \<Rightarrow> (Inl e, w)
      | Inr (records', updated) \<Rightarrow>
          if \<not> updated
          then (case getitem data ''RollNo'' of
                  Inl e \<Rightarrow> (Inl e, w)
                | Inr k \<Rightarrow> (Inr (Error ''Record not found'', 404), w))
          else
            (case write_csv records' w of
               (True, w') \<Rightarrow> (Inr (Message ''Record updated successfully'', 200), w')
             | (False, w') \<Rightarrow> (Inr (Error ''Failed to update record'', 500), w')))"

text \<open>The scan of \<^verbatim>\<open>read_data\<close> returns the first row with the RollNo asked for.\<close>

fun find_rollno :: "string \<Rightarrow> pydict list \<Rightarrow> exn + pydict option" where
  "find_rollno rollno [] = Inr None"
| "find_rollno rollno (row # rows) =
     (case getitem row ''RollNo'' of
        Inl e \<Rightarrow> Inl e
      | Inr r \<Rightarrow> if r = rollno then Inr (Some row) else find_rollno rollno rows)"

text \<open>
  \<^verbatim>\<open>request.args.get("RollNo")\<close> is \<open>None\<close> without the parameter; \<^verbatim>\<open>if rollno:\<close>
  also turns the empty text away. Both get the page with the form.
\<close>

definition read_data :: "string option \<Rightarrow> world \<Rightarrow> (exn + response) \<times> world" where
  "read_data rollno w =
     (case rollno of
        None \<Rightarrow> (Inr (Page ''read.html'', 200), w)
      | Some r \<Rightarrow>
          if r = [] then (Inr (Page ''read.html'', 200), w)
          else
            (case find_rollno r (read_csv w) of
               Inl e \<Rightarrow> (Inl e, w)
             | Inr (Some row) \<Rightarrow> (Inr (Record row, 200), w)
             | Inr None \<Rightarrow> (Inr (Error ''Record not found'', 404), w)))"

section \<open>Averages\<close>

text \<open>
  Python's \<^verbatim>\<open>float(s)\<close>, \<^verbatim>\<open>x + y\<close>, \<^verbatim>\<open>x / 3\<close> and \<^verbatim>\<open>round(x, 2)\<close> on floats are
  the interpreter's, not this program's: the model takes them as a parameter.
  \<open>float_of s = None\<close> is \<^verbatim>\<open>float(s)\<close> raising ValueError.
\<close>

record 'f pyfloat =
  float_of :: "string \<Rightarrow> 'f option"
  fadd :: "'f \<Rightarrow> 'f \<Rightarrow> 'f"
  fdiv :: "'f \<Rightarrow> int \<Rightarrow> 'f"
  fround :: "'f \<Rightarrow> int \<Rightarrow> 'f"

datatype 'f number = PyInt int | PyFloat 'f

record 'f avg_entry =
  avg_RollNo :: string
  avg_Name :: string
  Average :: "'f number"

text \<open>
  The \<^verbatim>\<open>try\<close> block: a mark that is missing (KeyError) or is no number
  (ValueError) sends control to \<^verbatim>\<open>except\<close>, where \<^verbatim>\<open>avg = 0\<close>.
\<close>

definition mark :: "'f pyfloat \<Rightarrow> pydict \<Rightarrow> string \<Rightarrow> 'f option" where
  "mark ops row k = Option.bind (map_of row k) (float_of ops)"

definition row_avg :: "'f pyfloat \<Rightarrow> pydict \<Rightarrow> 'f number" where
  "row_avg ops row =
     (case mark ops row ''English'' of
        None \<Rightarrow> PyInt 0
      | Some english \<Rightarrow>
          (case mark ops row ''Maths'' of
             None \<Rightarrow> PyInt 0
           | Some maths \<Rightarrow>
               (case mark ops row ''Science'' of
                  None \<Rightarrow> PyInt 0
                | Some science \<Rightarrow>
                    PyFloat (fround ops (fdiv ops (fadd ops (fadd ops english maths) science) 3) 2))))"

text \<open>
  \<^verbatim>\<open>calculate_avg\<close>: the entry is built outside the \<^verbatim>\<open>try\<close>, so a row without
  RollNo or Name ends the worker before it puts anything on the queue. The value
  is the list the worker puts.
\<close>

fun calculate_avg :: "'f pyfloat \<Rightarrow> pydict list \<Rightarrow> exn + 'f avg_entry list" where
  "calculate_avg ops [] = Inr []"
| "calculate_avg ops (row # records) =
     (let avg = row_avg ops row in
      case getitem row ''RollNo'' of
        Inl e \<Rightarrow> Inl e
      | Inr r \<Rightarrow>
          (case getitem row ''Name'' of
             Inl e \<Rightarrow> Inl e
           | Inr n \<Rightarrow>
               (case calculate_avg ops records of
                  Inl e \<Rightarrow> Inl e
                | Inr student_avg \<Rightarrow>
                    Inr (\<lparr>avg_RollNo = r, avg_Name = n, Average = avg\<rparr> # student_avg))))"

text \<open>\<^verbatim>\<open>xs[start:stop]\<close>: a negative bound counts from the end, every bound is clipped.\<close>

definition py_slice :: "'a list \<Rightarrow> int \<Rightarrow> int \<Rightarrow> 'a list" where
  "py_slice xs start stop =
     (let n = int (length xs);
          lo = (if start < 0 then max (start + n) 0 else min start n);
          hi = (if stop < 0 then max (stop + n) 0 else min stop n)
      in take (nat (hi - lo)) (drop (nat lo) xs))"

text \<open>The records handed to worker \<open>i\<close> of \<^verbatim>\<open>average\<close>.\<close>

definition chunk :: "pydict list \<Rightarrow> int \<Rightarrow> nat \<Rightarrow> pydict list" where
  "chunk records record_per_thread i =
     (let num_records = int (length records);
          start = int i * record_per_thread;
          stop = min (start + record_per_thread) num_records
      in py_slice records start stop)"

text \<open>
  The workers run concurrently; after the joins the queue holds what they put, in
  the order in which they finished. That order is the scheduler's: \<open>order\<close> lists
  the workers as they finish, and the workers that exist are those below
  \<open>num_thread\<close>. A worker that raised has put nothing.
\<close>

definition result_queue ::
  "'f pyfloat \<Rightarrow> pydict list \<Rightarrow> int \<Rightarrow> int \<Rightarrow> nat list \<Rightarrow> 'f avg_entry list list" where
  "result_queue ops records record_per_thread num_thread order =
     concat (map (\<lambda>i. case calculate_avg ops (chunk records record_per_thread i) of
                        Inl e \<Rightarrow> []
                      | Inr student_avg \<Rightarrow> [student_avg])
                 (filter (\<lambda>i. int i < num_thread) order))"

text \<open>
  The last loop of \<^verbatim>\<open>average\<close>. Its \<^verbatim>\<open>return\<close> stands inside the body of the
  \<^verbatim>\<open>while\<close>: the first pass extends the list by the first item of the queue and
  returns. Over an empty queue the function falls off its end and returns
  \<^verbatim>\<open>None\<close>, which Flask refuses with a TypeError.
\<close>

fun collect :: "'a list list \<Rightarrow> 'a list \<Rightarrow> exn + 'a list \<times> nat" where
  "collect [] all_student_avg = Inl TypeError"
| "collect (item # queue) all_student_avg = Inr (all_student_avg @ item, 200)"

text \<open>
  \<^verbatim>\<open>average\<close>, with the chunk size \<^verbatim>\<open>config.get("thread_size", 10)\<close> as the
  parameter \<open>record_per_thread\<close>. \<^verbatim>\<open>//\<close> is floor division, as \<open>div\<close> on \<open>int\<close> is,
  and raises on a zero divisor.
\<close>

definition average ::
  "'f pyfloat \<Rightarrow> int \<Rightarrow> nat list \<Rightarrow> world \<Rightarrow> exn + 'f avg_entry list \<times> nat" where
  "average ops record_per_thread order w =
     (let records = read_csv w;
          num_records = int (length records)
      in if record_per_thread = 0 then Inl ZeroDivisionError
         else
           let num_thread = num_records div record_per_thread + 1
           in collect (result_queue ops records record_per_thread num_thread order) [])"

text \<open>An order in which \<open>n\<close> workers can finish: each of them once.\<close>

definition finish_order :: "nat \<Rightarrow> nat list \<Rightarrow> bool" where
  "finish_order n order \<longleftrightarrow> distinct order \<and> set order = {..<n}"

section \<open>Exact arithmetic as one reading of the float operations\<close>

text \<open>
  For concrete runs the float operations are read as exact rational arithmetic on
  plain decimal literals (an optional sign, digits, an optional fraction), and
  \<^verbatim>\<open>round(x, 2)\<close> as rounding to the nearest hundredth, ties going to the even one.
  On the marks used below Python computes the doubles nearest to these rationals.
\<close>

definition digit_val :: "char \<Rightarrow> nat option" where
  "digit_val =
     map_of [(CHR ''0'', 0), (CHR ''1'', 1), (CHR ''2'', 2), (CHR ''3'', 3), (CHR ''4'', 4),
             (CHR ''5'', 5), (CHR ''6'', 6), (CHR ''7'', 7), (CHR ''8'', 8), (CHR ''9'', 9)]"

fun digits_val :: "nat \<Rightarrow> string \<Rightarrow> nat option" where
  "digits_val acc [] = Some acc"
| "digits_val acc (c # cs) =
     (case digit_val c of None \<Rightarrow> None | Some d \<Rightarrow> digits_val (10 * acc + d) cs)"

definition unsigned_decimal :: "string \<Rightarrow> rat option" where
  "unsigned_decimal s =
     (let whole = takeWhile (\<lambda>c. c \<noteq> CHR ''.'') s;
          frac = drop (Suc (length whole)) s
      in if whole = [] \<and> frac = [] then None
         else case digits_val 0 whole of
                None \<Rightarrow> None
              | Some a \<Rightarrow>
                  (case digits_val 0 frac of
                     None \<Rightarrow> None
                   | Some b \<Rightarrow> Some (of_nat a + of_nat b / 10 ^ length frac)))"

definition decimal :: "string \<Rightarrow> rat option" where
  "decimal s =
     (case s of
        [] \<Rightarrow> None
      | c # cs \<Rightarrow>
          if c = CHR ''-'' then map_option uminus (unsigned_decimal cs)
          else if c = CHR ''+'' then unsigned_decimal cs
          else unsigned_decimal s)"

definition round_half_even :: "rat \<Rightarrow> int" where
  "round_half_even x =
     (let n = \<lfloor>x\<rfloor>; r = x - of_int n
      in if r < 1 / 2 then n else if 1 / 2 < r then n + 1
         else if even n then n else n + 1)"

definition exact :: "rat pyfloat" where
  "exact =
     \<lparr>float_of = decimal,
      fadd = (\<lambda>x y. x + y),
      fdiv = (\<lambda>x n. x / of_int n),
      fround = (\<lambda>x d. of_int (round_half_even (x * 10 ^ nat d)) / 10 ^ nat d)\<rparr>"

section \<open>The key invariant and sample data\<close>


definition ann :: student where
  "ann = \<lparr>RollNo = ''1'', Name = ''Ann'', English = ''1'', Maths = ''1'', Science = ''2''\<rparr>"

definition bob :: student where
  "bob = \<lparr>RollNo = ''2'', Name = ''Bob'', English = ''70'', Maths = ''x'', Science = ''90''\<rparr>"

definition cy :: student where
  "cy = \<lparr>RollNo = ''3'', Name = ''Cy'', English = ''80'', Maths = ''85'', Science = ''90''\<rparr>"

definition no_file :: world where
  "no_file = \<lparr>csv = None, read_raises = False, write_fault = NoFault\<rparr>"

definition two_students :: world where
  "two_students = \<lparr>csv = Some [ann, bob], read_raises = False, write_fault = NoFault\<rparr>"

definition three_students :: world where
  "three_students = \<lparr>csv = Some [ann, bob, cy], read_raises = False, write_fault = NoFault\<rparr>"

definition read_only :: world where
  "read_only = \<lparr>csv = Some [ann, bob], read_raises = False, write_fault = OpenFails\<rparr>"

definition unreadable :: world where
  "unreadable = \<lparr>csv = Some [ann, bob], read_raises = True, write_fault = NoFault\<rparr>"




definition cy_form :: pydict where
  "cy_form = [(''RollNo'', ''3''), (''Name'', ''Cy''), (''English'', ''80''),
              (''Maths'', ''85''), (''Science'', ''90'')]"

definition bob_form :: pydict where
  "bob_form = [(''RollNo'', ''2''), (''Name'', ''Rob''), (''English'', ''75''),
               (''Maths'', ''65''), (''Science'', ''90'')]"

section \<open>Rows read from the file\<close>

text \<open>
  Every row that \<open>read_csv\<close> returns comes from a line of the file, so it has the
  five keys; the scans of the handlers never raise on such rows. The rows are
  those of \<open>readable\<close>: the records of the file as long as reading it does not
  raise. The statements below speak of the records read, which covers a file
  that is missing or unreadable too.
\<close>

lemma read_csv_readable: "read_csv w = map dict_of_student (readable w)"
  by (simp add: read_csv_def readable_def stored_def split: option.splits)

lemma readable_stored: "\<not> read_raises w \<Longrightarrow> readable w = stored w"
  by (simp add: readable_def)

lemma getitem_student [simp]:
  "getitem (dict_of_student s) ''RollNo'' = Inr (RollNo s)"
  "getitem (dict_of_student s) ''Name'' = Inr (Name s)"
  by (simp_all add: getitem_def dict_of_student_def)

lemma getitem_Some: "map_of d k = Some v \<Longrightarrow> getitem d k = Inr v"
  by (simp add: getitem_def)

lemma columns_student [simp]: "columns (dict_of_student s) = s"
  by (simp add: columns_def get_default_def dict_of_student_def)

lemma dict_to_list_student [simp]: "dict_to_list (dict_of_student s) = Some s"
  by (simp add: dict_to_list_def) (simp add: dict_of_student_def csv_header_def)

lemma writerows_students [simp]: "writerows (map dict_of_student rs) = (rs, True)"
  by (induction rs) simp_all


lemma any_rollno_students [simp]:
  "any_rollno k (map dict_of_student rs) = Inr (k \<in> RollNo ` set rs)"
  by (induction rs) auto

lemma filter_rollno_students [simp]:
  "filter_rollno k (map dict_of_student rs) =
     Inr (map dict_of_student (filter (\<lambda>s. RollNo s \<noteq> k) rs))"
  by (induction rs) auto

lemma update_rows_students:
  "getitem data ''RollNo'' = Inr k \<Longrightarrow>
   update_rows data (map dict_of_student rs) =
     Inr (map (\<lambda>s. if RollNo s = k then dict_update (dict_of_student s) data
                    else dict_of_student s) rs,
          k \<in> RollNo ` set rs)"
  by (induction rs) auto

lemma find_rollno_students:
  "find_rollno k (map dict_of_student rs) =
     Inr (map_option dict_of_student (find (\<lambda>s. RollNo s = k) rs))"
  by (induction rs) auto

lemma length_eq_filter: "length xs = length (filter P xs) \<longleftrightarrow> (\<forall>x \<in> set xs. P x)"
proof
  assume "length xs = length (filter P xs)"
  then have "length (filter (\<lambda>x. \<not> P x) xs) = 0"
    using sum_length_filter_compl [of P xs] by simp
  then show "\<forall>x \<in> set xs. P x"
    by (simp add: filter_empty_conv)
next
  assume "\<forall>x \<in> set xs. P x"
  then show "length xs = length (filter P xs)" by simp
qed


lemma readable_samples [simp]:
  "readable two_students = [ann, bob]" "readable three_students = [ann, bob, cy]"
  "readable no_file = []" "readable read_only = [ann, bob]"
  by (simp_all add: readable_def stored_def two_students_def three_students_def
      no_file_def read_only_def)

section \<open>What the handlers do on the rows of the file\<close>

lemma snd_write_outcome [simp]:
  "snd (case p of (True, w') \<Rightarrow> (a, w') | (False, w') \<Rightarrow> (b, w')) = snd p"
  by (simp split: prod.splits bool.splits)



lemma remove_data_students:
  "remove_data rollno w =
     (if rollno \<notin> RollNo ` set (readable w) then (Inr (Error ''Record not found'', 404), w)
      else case write_csv (map dict_of_student
                             (filter (\<lambda>s. RollNo s \<noteq> rollno) (readable w))) w of
             (True, w') \<Rightarrow> (Inr (Message ''Record deleted successfully'', 200), w')
           | (False, w') \<Rightarrow> (Inr (Error ''Failed to delete record'', 500), w'))"
  by (auto simp add: remove_data_def read_csv_readable length_eq_filter Let_def)

lemma update_data_students:
  assumes "map_of data ''RollNo'' = Some k"
  shows "update_data data w =
           (if k \<notin> RollNo ` set (readable w) then (Inr (Error ''Record not found'', 404), w)
            else case write_csv (map (\<lambda>s. if RollNo s = k
                                            then dict_update (dict_of_student s) data
                                            else dict_of_student s) (readable w)) w of
                   (True, w') \<Rightarrow> (Inr (Message ''Record updated successfully'', 200), w')
                 | (False, w') \<Rightarrow> (Inr (Error ''Failed to update record'', 500), w'))"
  using assms
  by (simp add: update_data_def read_csv_readable getitem_Some update_rows_students)

lemma read_data_students:
  "r \<noteq> [] \<Longrightarrow> read_data (Some r) w =
     (case find (\<lambda>s. RollNo s = r) (readable w) of
        None \<Rightarrow> (Inr (Error ''Record not found'', 404), w)
      | Some s \<Rightarrow> (Inr (Record (dict_of_student s), 200), w))"
  by (simp add: read_data_def read_csv_readable find_rollno_students split: option.splits)

section \<open>Insert\<close>

text \<open>
  C3, as stated: an insert whose RollNo is the RollNo of a stored record is
  rejected with HTTP 400 and the store is unchanged. The handler knows the store
  through \<open>read_csv\<close>, which yields no record when reading raises: on a file that
  holds Ann and Bob and cannot be read, the insert of a second record with the
  RollNo of Bob is answered with HTTP 201, and the file is rewritten to that
  record alone.
\<close>

theorem unread_duplicate_counterexample:
  "map_of bob_form ''RollNo'' = Some ''2'' \<and> stored unreadable = [ann, bob] \<and>
   RollNo bob = ''2'' \<and>
   insert_data bob_form unreadable =
     (Inr (Message ''Record inserted successfully'', 201),
      unreadable\<lparr>csv := Some [columns bob_form]\<rparr>)"
  by code_simp

text \<open>
  C3, amended: an insert whose RollNo is the RollNo of a record that reading the
  store yields (a stored record, when the file can be read) is answered with an
  error and HTTP 400, and the world, the file included, is the one before the
  request.
\<close>

theorem insert_rejects_duplicate:
  assumes "map_of data ''RollNo'' = Some k"
      and "k \<in> RollNo ` set (readable w)"
  shows "\<exists>msg. insert_data data w = (Inr (Error msg, 400), w)"
  using assms
  by (simp add: insert_data_def read_csv_readable getitem_Some)

theorem insert_rejects_duplicate_witness:
  "map_of bob_form ''RollNo'' = Some ''2'' \<and> ''2'' \<in> RollNo ` set (readable two_students) \<and>
   (\<exists>msg. insert_data bob_form two_students = (Inr (Error msg, 400), two_students))"
proof -
  have a: "map_of bob_form ''RollNo'' = Some ''2''" by (simp add: bob_form_def)
  have b: "''2'' \<in> RollNo ` set (readable two_students)" by (simp add: bob_def)
  from insert_rejects_duplicate [OF a b] a b show ?thesis by simp
qed




section \<open>Remove and update\<close>

text \<open>
  C5, as stated: remove and update report not-found exactly when no stored record
  has the RollNo. On the file that holds Ann and Bob and cannot be read, the
  remove and the update of Bob, who is stored, are both answered with HTTP 404.
\<close>

theorem unread_not_found_counterexample:
  "stored unreadable = [ann, bob] \<and> RollNo bob = ''2'' \<and>
   map_of bob_form ''RollNo'' = Some ''2'' \<and>
   remove_data ''2'' unreadable = (Inr (Error ''Record not found'', 404), unreadable) \<and>
   update_data bob_form unreadable = (Inr (Error ''Record not found'', 404), unreadable)"
  by code_simp

text \<open>
  C5, amended: for a RollNo that no record read from the store has, remove answers
  "Record not found" with HTTP 404 and leaves the world as it was; so does an
  update whose body names such a RollNo. Each of the two answers 404 exactly when
  no record read from the store has the RollNo: when the file can be read, exactly
  when no stored record has it.
\<close>

theorem remove_update_not_found:
  assumes "map_of data ''RollNo'' = Some k"
  shows "(rollno \<notin> RollNo ` set (readable w) \<longrightarrow>
            remove_data rollno w = (Inr (Error ''Record not found'', 404), w)) \<and>
         (k \<notin> RollNo ` set (readable w) \<longrightarrow>
            update_data data w = (Inr (Error ''Record not found'', 404), w)) \<and>
         (status (remove_data rollno w) = Some 404 \<longleftrightarrow> rollno \<notin> RollNo ` set (readable w)) \<and>
         (status (update_data data w) = Some 404 \<longleftrightarrow> k \<notin> RollNo ` set (readable w))"
proof -
  have r: "status (remove_data rollno w) = Some 404 \<longleftrightarrow> rollno \<notin> RollNo ` set (readable w)"
    by (simp add: remove_data_students status_def split: prod.splits bool.splits)
  have u: "status (update_data data w) = Some 404 \<longleftrightarrow> k \<notin> RollNo ` set (readable w)"
    by (simp add: update_data_students [OF assms] status_def split: prod.splits bool.splits)
  show ?thesis
    using r u by (simp add: remove_data_students update_data_students [OF assms])
qed

theorem remove_update_not_found_witness:
  "map_of cy_form ''RollNo'' = Some ''3'' \<and>
   remove_data ''3'' two_students = (Inr (Error ''Record not found'', 404), two_students) \<and>
   update_data cy_form two_students = (Inr (Error ''Record not found'', 404), two_students) \<and>
   status (remove_data ''2'' two_students) \<noteq> Some 404 \<and>
   status (update_data bob_form two_students) \<noteq> Some 404"
proof -
  have a: "map_of cy_form ''RollNo'' = Some ''3''" by (simp add: cy_form_def)
  have b: "map_of bob_form ''RollNo'' = Some ''2''" by (simp add: bob_form_def)
  have c: "''3'' \<notin> RollNo ` set (readable two_students)" by (simp add: ann_def bob_def)
  have d: "''2'' \<in> RollNo ` set (readable two_students)" by (simp add: bob_def)
  from remove_update_not_found [OF a, of "''3''" two_students]
       remove_update_not_found [OF b, of "''2''" two_students] a c d
  show ?thesis by simp
qed



section \<open>The key stays unique, unless a write cuts a RollNo\<close>


















section \<open>A write that fails\<close>






section \<open>The average of one record\<close>

lemma mark_student:
  "mark ops (dict_of_student s) ''English'' = float_of ops (English s)"
  "mark ops (dict_of_student s) ''Maths'' = float_of ops (Maths s)"
  "mark ops (dict_of_student s) ''Science'' = float_of ops (Science s)"
  by (simp_all add: mark_def dict_of_student_def)

lemma calculate_avg_students:
  "calculate_avg ops (map dict_of_student rs) =
     Inr (map (\<lambda>s. \<lparr>avg_RollNo = RollNo s, avg_Name = Name s,
                     Average = row_avg ops (dict_of_student s)\<rparr>) rs)"
  by (induction rs) (simp_all add: Let_def)

text \<open>
  C1, as stated: the entry of a record whose three marks are numbers holds their
  arithmetic mean. The code rounds the mean: under exact arithmetic the marks 1, 1
  and 2 give 1.33, which is not 4/3.
\<close>

theorem mean_counterexample:
  "float_of exact (English ann) = Some 1 \<and> float_of exact (Maths ann) = Some 1 \<and>
   float_of exact (Science ann) = Some 2 \<and>
   calculate_avg exact [dict_of_student ann] =
     Inr [\<lparr>avg_RollNo = ''1'', avg_Name = ''Ann'', Average = PyFloat (133 / 100)\<rparr>] \<and>
   (133 / 100 :: rat) \<noteq> (1 + 1 + 2) / 3"
  by code_simp

text \<open>
  C1, amended: for every record of the list given to \<open>calculate_avg\<close> whose
  English, Maths and Science fields parse as numbers, the worker produces, at the
  position of the record, an entry with its RollNo and Name whose Average is the
  mean rounded to two places, \<^verbatim>\<open>round((english + maths + science) / 3, 2)\<close>, for
  whatever the float operations compute.
\<close>

theorem average_is_rounded_mean:
  assumes "float_of ops (English s) = Some e" and "float_of ops (Maths s) = Some m"
      and "float_of ops (Science s) = Some c"
      and "i < length rs" and "rs ! i = s"
  shows "\<exists>es. calculate_avg ops (map dict_of_student rs) = Inr es \<and> length es = length rs \<and>
              es ! i = \<lparr>avg_RollNo = RollNo s, avg_Name = Name s,
                        Average = PyFloat (fround ops (fdiv ops (fadd ops (fadd ops e m) c) 3) 2)\<rparr>"
proof -
  have "row_avg ops (dict_of_student s) =
          PyFloat (fround ops (fdiv ops (fadd ops (fadd ops e m) c) 3) 2)"
    using assms(1-3) by (simp add: row_avg_def mark_student)
  with assms(4,5) show ?thesis
    by (simp add: calculate_avg_students)
qed

theorem average_is_rounded_mean_witness:
  "float_of exact (English cy) = Some 80 \<and> float_of exact (Maths cy) = Some 85 \<and>
   float_of exact (Science cy) = Some 90 \<and> 2 < length [ann, bob, cy] \<and> [ann, bob, cy] ! 2 = cy \<and>
   (\<exists>es. calculate_avg exact (map dict_of_student [ann, bob, cy]) = Inr es \<and>
         length es = length [ann, bob, cy] \<and>
         es ! 2 = \<lparr>avg_RollNo = RollNo cy, avg_Name = Name cy,
                    Average = PyFloat (fround exact (fdiv exact (fadd exact (fadd exact 80 85) 90) 3) 2)\<rparr>)"
proof -
  have a: "float_of exact (English cy) = Some 80" by code_simp
  have b: "float_of exact (Maths cy) = Some 85" by code_simp
  have c: "float_of exact (Science cy) = Some 90" by code_simp
  have d: "2 < length [ann, bob, cy]" by simp
  have e: "[ann, bob, cy] ! 2 = cy" by simp
  from average_is_rounded_mean [OF a b c d e] a b c d e show ?thesis by blast
qed

text \<open>
  C9. A record with an English, Maths or Science field that is no number does not
  end the worker and is not dropped: the worker returns one entry for each record
  of its list, and the entry at the position of that record has its RollNo, its
  Name and the Average 0.
\<close>

theorem unparsable_mark_gives_zero:
  assumes "float_of ops (English s) = None \<or> float_of ops (Maths s) = None \<or>
           float_of ops (Science s) = None"
      and "i < length rs" and "rs ! i = s"
  shows "\<exists>es. calculate_avg ops (map dict_of_student rs) = Inr es \<and> length es = length rs \<and>
              es ! i = \<lparr>avg_RollNo = RollNo s, avg_Name = Name s, Average = PyInt 0\<rparr>"
proof -
  have "row_avg ops (dict_of_student s) = PyInt 0"
    using assms(1) by (auto simp add: row_avg_def mark_student split: option.splits)
  with assms(2,3) show ?thesis
    by (simp add: calculate_avg_students)
qed

theorem unparsable_mark_gives_zero_witness:
  "float_of exact (Maths bob) = None \<and> 1 < length [ann, bob, cy] \<and> [ann, bob, cy] ! 1 = bob \<and>
   (\<exists>es. calculate_avg exact (map dict_of_student [ann, bob, cy]) = Inr es \<and>
         length es = length [ann, bob, cy] \<and>
         es ! 1 = \<lparr>avg_RollNo = RollNo bob, avg_Name = Name bob, Average = PyInt 0\<rparr>)"
proof -
  have a: "float_of exact (Maths bob) = None" by code_simp
  then have a': "float_of exact (English bob) = None \<or> float_of exact (Maths bob) = None \<or>
      float_of exact (Science bob) = None" by simp
  have d: "1 < length [ann, bob, cy]" by simp
  have e: "[ann, bob, cy] ! 1 = bob" by simp
  from unparsable_mark_gives_zero [OF a' d e] a d e show ?thesis by blast
qed

section \<open>A file that is missing or cannot be read\<close>

text \<open>
  C10. When the file does not exist or reading it raises, \<open>read_csv\<close> yields the
  empty list, so a read request for a RollNo, a remove and an update of a RollNo
  are answered "Record not found" with HTTP 404 instead of failing, and the world
  is left as it was.
\<close>

theorem unreadable_file_is_not_found:
  assumes "csv w = None \<or> read_raises w"
  shows "read_csv w = [] \<and>
         (r \<noteq> [] \<longrightarrow> read_data (Some r) w = (Inr (Error ''Record not found'', 404), w)) \<and>
         remove_data rollno w = (Inr (Error ''Record not found'', 404), w) \<and>
         (map_of data ''RollNo'' = Some k \<longrightarrow>
            update_data data w = (Inr (Error ''Record not found'', 404), w))"
proof -
  have e: "readable w = []"
    using assms by (auto simp add: readable_def stored_def)
  then show ?thesis
    by (simp add: read_csv_readable read_data_students remove_data_students update_data_students)
qed

theorem unreadable_file_is_not_found_witness:
  "(csv no_file = None \<or> read_raises no_file) \<and> read_csv no_file = [] \<and>
   read_data (Some ''1'') no_file = (Inr (Error ''Record not found'', 404), no_file) \<and>
   remove_data ''1'' no_file = (Inr (Error ''Record not found'', 404), no_file) \<and>
   update_data cy_form no_file = (Inr (Error ''Record not found'', 404), no_file)"
proof -
  have a: "csv no_file = None \<or> read_raises no_file" by (simp add: no_file_def)
  have b: "map_of cy_form ''RollNo'' = Some ''3''" by (simp add: cy_form_def)
  from unreadable_file_is_not_found [OF a, of "''1''" "''1''" cy_form "''3''"] a b
  show ?thesis by simp
qed

section \<open>The chunks of average and its response\<close>

text \<open>For a positive chunk size the slices are plain \<open>take\<close> and \<open>drop\<close>.\<close>

lemma py_slice_nat:
  "py_slice xs (int a) (int b) =
     take (min b (length xs) - min a (length xs)) (drop (min a (length xs)) xs)"
proof -
  have "nat (min (int b) (int (length xs)) - min (int a) (int (length xs))) =
        min b (length xs) - min a (length xs)"
    by (simp add: min_def nat_diff_distrib')
  moreover have "nat (min (int a) (int (length xs))) = min a (length xs)"
    by (simp add: min_def)
  ultimately show ?thesis
    by (simp add: py_slice_def Let_def)
qed

lemma chunk_nat: "chunk records (int t) i = take t (drop (i * t) records)"
proof -
  have "chunk records (int t) i =
          py_slice records (int (i * t)) (int (min (i * t + t) (length records)))"
    by (simp add: chunk_def Let_def of_nat_min)
  also have "\<dots> = take t (drop (i * t) records)"
    unfolding py_slice_nat
    by (cases "i * t \<le> length records") (simp_all add: min_def)
  finally show ?thesis .
qed

lemma concat_chunks: "concat (map (\<lambda>i. take t (drop (i * t) xs)) [0..<k]) = take (k * t) xs"
proof (induction k)
  case 0
  then show ?case by simp
next
  case (Suc k)
  have "take (Suc k * t) xs = take (k * t + t) xs"
    by (simp add: add.commute)
  also have "\<dots> = take (k * t) xs @ take t (drop (k * t) xs)"
    by (rule take_add)
  finally show ?case using Suc by simp
qed

text \<open>
  The chunks of the workers partition the records: put one after the other, in
  the order of the workers, they are the list that was read.
\<close>

lemma chunks_partition:
  assumes "0 < record_per_thread"
  shows "concat (map (chunk records record_per_thread)
           [0..<nat (int (length records) div record_per_thread + 1)]) = records"
proof -
  define t where "t = nat record_per_thread"
  then have t: "record_per_thread = int t" "0 < t"
    using assms by simp_all
  have k: "nat (int (length records) div int t + 1) = length records div t + 1"
    by (simp add: nat_add_distrib zdiv_int [symmetric])
  have "length records < (length records div t + 1) * t"
    using t(2) dividend_less_div_times [of t "length records"] by (simp add: algebra_simps)
  then have "take ((length records div t + 1) * t) records = records"
    by simp
  moreover have "chunk records (int t) = (\<lambda>i. take t (drop (i * t) records))"
    by (rule ext) (rule chunk_nat)
  ultimately show ?thesis
    unfolding t(1) k by (simp only: concat_chunks)
qed

lemma py_slice_map: "py_slice (map f xs) a b = map f (py_slice xs a b)"
  by (simp add: py_slice_def Let_def take_map drop_map)

lemma chunk_map:
  "chunk (map dict_of_student rs) ts i =
     map dict_of_student (py_slice rs (int i * ts) (min (int i * ts + ts) (int (length rs))))"
  by (simp add: chunk_def Let_def py_slice_map)

lemma calculate_avg_chunk:
  "\<exists>es. calculate_avg ops (chunk (read_csv w) ts i) = Inr es \<and>
        length es = length (chunk (read_csv w) ts i)"
  by (simp add: read_csv_readable chunk_map calculate_avg_students)

lemma length_chunk: "0 < ts \<Longrightarrow> length (chunk records ts i) \<le> nat ts"
  using chunk_nat [of records "nat ts" i] by simp

lemma num_thread_pos: "0 < ts \<Longrightarrow> 0 < int n div ts + 1"
proof -
  assume "0 < ts"
  then have "0 \<le> int n div ts" by (simp add: pos_imp_zdiv_nonneg_iff)
  then show ?thesis by simp
qed

lemma result_queue_Cons:
  assumes "int i < num_thread" and "calculate_avg ops (chunk records ts i) = Inr es"
  shows "result_queue ops records ts num_thread (i # rest) =
           es # result_queue ops records ts num_thread rest"
  using assms by (simp add: result_queue_def)

text \<open>
  Whatever the order in which the workers finish, the response of \<open>average\<close> is
  the list of the worker that finished first, with HTTP 200: at most one chunk of
  entries, however many records the file holds.
\<close>

lemma average_first_finisher:
  assumes "0 < ts"
      and "finish_order (nat (int (length (read_csv w)) div ts + 1)) order"
  shows "\<exists>es. calculate_avg ops (chunk (read_csv w) ts (hd order)) = Inr es \<and>
              average ops ts order w = Inr (es, 200) \<and> length es \<le> nat ts"
proof -
  let ?n = "int (length (read_csv w)) div ts + 1"
  have pos: "0 < ?n"
    using assms(1) by (rule num_thread_pos)
  then have "0 \<in> set order"
    using assms(2) by (simp add: finish_order_def)
  then obtain i rest where order: "order = i # rest"
    by (cases order) auto
  have "i \<in> set order"
    by (simp add: order)
  then have "i < nat ?n"
    using assms(2) by (simp add: finish_order_def)
  then have i: "int i < ?n"
    by linarith
  obtain es where es: "calculate_avg ops (chunk (read_csv w) ts i) = Inr es"
    "length es = length (chunk (read_csv w) ts i)"
    using calculate_avg_chunk by blast
  have ts: "ts \<noteq> 0"
    using assms(1) by simp
  have "average ops ts (i # rest) w = Inr (es, 200)"
    unfolding average_def Let_def result_queue_Cons [OF i es(1)]
    using ts by simp
  moreover have "length es \<le> nat ts"
    using es(2) length_chunk [OF assms(1)] by simp
  ultimately show ?thesis
    using es(1) by (simp add: order)
qed

text \<open>
  C2. The claim: the response of the average endpoint holds one entry for each
  record of the store. With the chunk size 2 and the three records of
  \<open>three_students\<close> two workers run, on the chunks \<open>[ann, bob]\<close> and \<open>[cy]\<close>,
  and they can finish in two orders. The response holds the entries of Ann and
  Bob in one case and the entry of Cy in the other: never three entries.
\<close>

theorem average_answers_one_chunk:
  "length (readable three_students) = 3 \<and>
   average exact 2 [0, 1] three_students =
     Inr ([\<lparr>avg_RollNo = ''1'', avg_Name = ''Ann'', Average = PyFloat (133 / 100)\<rparr>,
           \<lparr>avg_RollNo = ''2'', avg_Name = ''Bob'', Average = PyInt 0\<rparr>], 200) \<and>
   average exact 2 [1, 0] three_students =
     Inr ([\<lparr>avg_RollNo = ''3'', avg_Name = ''Cy'', Average = PyFloat 85\<rparr>], 200)"
  by code_simp

end
